theory Spec2Isabelle
  imports Main "HOL-Library.Char_ord" "HOL-Library.List_Lexorder"
begin

section \<open>The iRODS plugin build module (ansible\_modules/irods\_build\_plugin.py)\<close>

text \<open>
  The module is a Python 2 Ansible module. It picks a build strategy from the platform the
  host reports, and the strategy runs four steps: install the building dependencies, clone
  and check out the plugin's git repository, run the repository's build script, copy the
  build directory to the output directory.

  The embedding follows the source method by method. What the module reads from its host
  (platform, distribution, iRODS platform string, home directory) is a record \<open>host\<close>;
  what it changes is a record \<open>world\<close>: a file system and the list of external processes
  started so far. The behaviour of the external processes themselves (package manager, wget,
  git, the build script) is a parameter \<open>machine\<close>: any function from the world and the
  call to an exit status, an error text and the file system the process leaves behind.
  Every exception and every \<open>fail_json\<close> exit is a value \<open>Inl e\<close>.
\<close>

subsection \<open>Python strings and paths\<close>

text \<open>\<open>s.startswith(p)\<close>.\<close>

definition starts_with :: "string \<Rightarrow> string \<Rightarrow> bool" where
  "starts_with p s = (take (length p) s = p)"

text \<open>\<open>p in s\<close> on Python strings: \<open>p\<close> occurs in \<open>s\<close> as a contiguous substring.\<close>

fun is_substring :: "string \<Rightarrow> string \<Rightarrow> bool" where
  "is_substring p [] = (p = [])"
| "is_substring p (c # cs) = (starts_with p (c # cs) \<or> is_substring p cs)"

text \<open>\<open>s.rstrip('/')\<close>.\<close>

fun rstrip_slash :: "string \<Rightarrow> string" where
  "rstrip_slash [] = []"
| "rstrip_slash (c # cs) =
     (case rstrip_slash cs of
        [] \<Rightarrow> (if c = CHR ''/'' then [] else [c])
      | r # rs \<Rightarrow> c # r # rs)"

text \<open>
  \<open>os.path.join(a, b)\<close> of posixpath: an absolute \<open>b\<close> replaces \<open>a\<close>; otherwise the two are
  joined with exactly one separator between them.
\<close>

definition path_join :: "string \<Rightarrow> string \<Rightarrow> string" where
  "path_join a b =
     (if starts_with ''/'' b then b
      else if a = [] \<or> last a = CHR ''/'' then a @ b
      else a @ ''/'' @ b)"

text \<open>\<open>s.split(sep)\<close> for a one-character separator.\<close>

fun split_on :: "char \<Rightarrow> string \<Rightarrow> string list" where
  "split_on sep [] = [[]]"
| "split_on sep (c # cs) =
     (if c = sep then [] # split_on sep cs
      else (case split_on sep cs of
              [] \<Rightarrow> [[c]]
            | x # xs \<Rightarrow> (c # x) # xs))"

text \<open>
  The components the operating system walks for a path: empty components and \<open>.\<close> are
  skipped, \<open>..\<close> steps back to the parent (and stays at the root). Every path is read
  from the root; there are no symbolic links.
\<close>

fun resolve :: "string list \<Rightarrow> string list \<Rightarrow> string list" where
  "resolve up [] = rev up"
| "resolve up (c # cs) =
     (if c = [] \<or> c = ''.'' then resolve up cs
      else if c = ''..'' then resolve (tl up) cs
      else resolve (c # up) cs)"

definition split_path :: "string \<Rightarrow> string list" where
  "split_path p = resolve [] (split_on CHR ''/'' p)"

fun is_prefix :: "'a list \<Rightarrow> 'a list \<Rightarrow> bool" where
  "is_prefix [] ys = True"
| "is_prefix (x # xs) [] = False"
| "is_prefix (x # xs) (y # ys) = (x = y \<and> is_prefix xs ys)"

text \<open>The path \<open>p\<close> names something strictly below the directory \<open>d\<close>.\<close>

definition inside_dir :: "string \<Rightarrow> string \<Rightarrow> bool" where
  "inside_dir d p =
     (is_prefix (split_path d) (split_path p) \<and> split_path d \<noteq> split_path p)"

subsection \<open>Errors\<close>

text \<open>
  The first argument of \<open>run_command\<close> is a string, as the module passes for git and the
  build script, or an argument list, as it passes for wget.
\<close>

datatype command = Shell string | Argv "string list"

datatype error =
    AttributeError string string
  | IndexError
  | OSError string
  | CopyError string
  | FailJson string
  | CommandFailed command int string
  | InstallFailed "string list" int

text \<open>
  \<open>AttributeError cls name\<close>: an object of class \<open>cls\<close> has no attribute \<open>name\<close>.
  \<open>OSError path\<close>: an \<open>os\<close> or \<open>shutil\<close> call failed on \<open>path\<close>.
  \<open>CopyError path\<close>: \<open>shutil.copytree\<close> gave up on a copy that does not end.
  \<open>FailJson msg\<close>: \<open>module.fail_json(msg=msg)\<close>, which reports the failure and exits.
  \<open>CommandFailed args rc stderr\<close>: the \<open>fail_json\<close> of \<open>run_command\<close> under
  \<open>check_rc=True\<close> when the process returns the non-zero status \<open>rc\<close>.
  \<open>InstallFailed packages rc\<close>: the package manager failed.
\<close>

text \<open>\<open>xs[0]\<close>: IndexError on an empty list.\<close>

definition first :: "'a list \<Rightarrow> error + 'a" where
  "first xs = (case xs of [] \<Rightarrow> Inl IndexError | x # _ \<Rightarrow> Inr x)"

subsection \<open>The file system\<close>

text \<open>
  A file system is a tree: a directory holds named entries in the order a listing returns
  them. Contents and attributes of plain files play no part in the module.
\<close>

datatype node = File | Dir "(string \<times> node) list"

fun lookup :: "node \<Rightarrow> string list \<Rightarrow> node option" where
  "lookup n [] = Some n"
| "lookup File (c # cs) = None"
| "lookup (Dir es) (c # cs) =
     (case map_of es c of None \<Rightarrow> None | Some n \<Rightarrow> lookup n cs)"

fun set_entry :: "string \<Rightarrow> node \<Rightarrow> (string \<times> node) list \<Rightarrow> (string \<times> node) list" where
  "set_entry c n [] = [(c, n)]"
| "set_entry c n ((k, v) # es) = (if k = c then (k, n) # es else (k, v) # set_entry c n es)"

text \<open>
  \<open>graft t path new\<close> puts \<open>new\<close> at \<open>path\<close>, creating the directories missing on the
  way (as \<open>os.makedirs\<close> does); there is no result when a plain file is in the way.
\<close>

fun graft :: "node \<Rightarrow> string list \<Rightarrow> node \<Rightarrow> node option" where
  "graft n [] new = Some new"
| "graft File (c # cs) new = None"
| "graft (Dir es) (c # cs) new =
     (case graft (case map_of es c of None \<Rightarrow> Dir [] | Some n \<Rightarrow> n) cs new of
        None \<Rightarrow> None
      | Some n' \<Rightarrow> Some (Dir (set_entry c n' es)))"

text \<open>\<open>os.listdir(path)\<close>: the names in the directory, OSError when it is not a directory.\<close>

definition listdir :: "node \<Rightarrow> string \<Rightarrow> error + string list" where
  "listdir t path =
     (case lookup t (split_path path) of
        Some (Dir es) \<Rightarrow> Inr (map fst es)
      | _ \<Rightarrow> Inl (OSError path))"

text \<open>
  \<open>os.makedirs(path)\<close>: OSError when \<open>path\<close> exists or a plain file is in the way;
  otherwise the directory and its missing parents are created.
\<close>

definition makedirs :: "node \<Rightarrow> string \<Rightarrow> error + node" where
  "makedirs t path =
     (case lookup t (split_path path) of
        Some _ \<Rightarrow> Inl (OSError path)
      | None \<Rightarrow>
          (case graft t (split_path path) (Dir []) of
             None \<Rightarrow> Inl (OSError path)
           | Some t' \<Rightarrow> Inr t'))"

text \<open>
  \<open>shutil.copytree(src, dst)\<close> of Python 2: it lists \<open>src\<close> (OSError when \<open>src\<close> is not
  a directory), creates \<open>dst\<close> with \<open>os.makedirs\<close> (OSError when \<open>dst\<close> exists), and copies
  every listed entry, directories recursively. A destination two or more levels below a
  directory that \<open>src\<close> already holds makes the recursion copy the tree into itself without
  end, until Python gives up.
\<close>

definition copies_into_itself :: "node \<Rightarrow> string \<Rightarrow> string \<Rightarrow> bool" where
  "copies_into_itself t src dst =
     (is_prefix (split_path src) (split_path dst) \<and>
      (case drop (length (split_path src)) (split_path dst) of
         c # _ # _ \<Rightarrow>
           (case lookup t (split_path src @ [c]) of Some (Dir _) \<Rightarrow> True | _ \<Rightarrow> False)
       | _ \<Rightarrow> False))"

definition copytree :: "node \<Rightarrow> string \<Rightarrow> string \<Rightarrow> error + node" where
  "copytree t src dst =
     (case lookup t (split_path src) of
        Some (Dir es) \<Rightarrow>
          (if lookup t (split_path dst) \<noteq> None then Inl (OSError dst)
           else if copies_into_itself t src dst then Inl (CopyError dst)
           else (case graft t (split_path dst) (Dir es) of
                   None \<Rightarrow> Inl (OSError dst)
                 | Some t' \<Rightarrow> Inr t'))
      | _ \<Rightarrow> Inl (OSError src))"

definition nonempty_dir :: "node \<Rightarrow> string \<Rightarrow> bool" where
  "nonempty_dir t path =
     (case lookup t (split_path path) of Some (Dir (e # es)) \<Rightarrow> True | _ \<Rightarrow> False)"

definition empty_dir :: "node \<Rightarrow> string \<Rightarrow> bool" where
  "empty_dir t path = (lookup t (split_path path) = Some (Dir []))"

definition path_exists :: "node \<Rightarrow> string \<Rightarrow> bool" where
  "path_exists t path = (lookup t (split_path path) \<noteq> None)"

definition is_dir :: "node \<Rightarrow> string \<Rightarrow> bool" where
  "is_dir t path = (case lookup t (split_path path) of Some (Dir _) \<Rightarrow> True | _ \<Rightarrow> False)"

subsection \<open>The host, the world and the external processes\<close>

text \<open>
  What the module asks its host: \<open>get_platform()\<close> and \<open>get_distribution()\<close> of Ansible
  (the latter is None off Linux), \<open>get_irods_platform_string()\<close> of the repository's own
  \<open>local_ansible_utils_extension\<close> (not among the sources; its result is taken as given),
  and the home directory \<open>os.path.expanduser\<close> reads.
\<close>

record host =
  get_platform :: string
  get_distribution :: "string option"
  get_irods_platform_string :: string
  home :: string

text \<open>The module's parameters: every one is required by the argument specification.\<close>

record params =
  output_root_directory :: string
  irods_packages_root_directory :: string
  plugin_name :: string
  target_os_list :: "string list"
  git_repository :: string
  git_commitish :: string
  debug_build :: bool

text \<open>
  The external processes the module starts: the two package-manager helpers, and
  \<open>module.run_command(args, cwd=..., use_unsafe_shell=...)\<close>.
\<close>

datatype call =
    InstallOsPackages "string list"
  | InstallOsPackagesFromFiles "string list"
  | RunCommand command "string option" bool

record world =
  fs :: node
  calls :: "call list"

record outcome =
  rc :: int
  stderr :: string
  fs_after :: node

type_synonym machine = "world \<Rightarrow> call \<Rightarrow> outcome"

type_synonym 'a action = "world \<Rightarrow> (error + 'a) \<times> world"

definition and_then :: "'a action \<Rightarrow> ('a \<Rightarrow> 'b action) \<Rightarrow> 'b action" where
  "and_then f g w = (case f w of (Inl e, w') \<Rightarrow> (Inl e, w') | (Inr x, w') \<Rightarrow> g x w')"

definition then_do :: "unit action \<Rightarrow> 'b action \<Rightarrow> 'b action" where
  "then_do f g = and_then f (\<lambda>_. g)"

definition lift :: "error + 'a \<Rightarrow> 'a action" where
  "lift r w = (r, w)"

text \<open>Starting a process records the call and leaves the file system the process produced.\<close>

definition invoke :: "machine \<Rightarrow> call \<Rightarrow> world \<Rightarrow> (int \<times> string) \<times> world" where
  "invoke m c w =
     ((rc (m w c), stderr (m w c)), \<lparr>fs = fs_after (m w c), calls = calls w @ [c]\<rparr>)"

text \<open>
  \<open>module.run_command(args, check_rc=..., cwd=..., use_unsafe_shell=...)\<close> of Ansible: under
  \<open>check_rc\<close> a non-zero status ends the module through \<open>fail_json\<close>. The module ignores
  the value returned.
\<close>

definition run_command :: "machine \<Rightarrow> command \<Rightarrow> bool \<Rightarrow> string option \<Rightarrow> bool \<Rightarrow> unit action" where
  "run_command m args check_rc cwd use_unsafe_shell w =
     (case invoke m (RunCommand args cwd use_unsafe_shell) w of
        ((r, err), w') \<Rightarrow>
          (if check_rc \<and> r \<noteq> 0 then (Inl (CommandFailed args r err), w') else (Inr (), w')))"

text \<open>
  Modelled from the spec: \<open>install_os_packages\<close> is defined in the repository's
  \<open>local_ansible_utils_extension\<close>, which is not among the sources. By the spec it
  installs the packages of the list "via the OS package manager", an external process that
  "either succeeds or the whole run fails immediately". The call is recorded, and what it
  does is left to the machine: status 0 stands for a call that returns, any other status
  for one that raises.
\<close>

definition install_os_packages :: "machine \<Rightarrow> string list \<Rightarrow> unit action" where
  "install_os_packages m pkgs w =
     (case invoke m (InstallOsPackages pkgs) w of
        ((r, err), w') \<Rightarrow>
          (if r \<noteq> 0 then (Inl (InstallFailed pkgs r), w') else (Inr (), w')))"

text \<open>
  Modelled from the spec: \<open>install_os_packages_from_files\<close> is defined in the same
  missing file. By the spec it is the package manager's "install-from-file", an external
  process that "either succeeds or the whole run fails immediately". It is recorded and
  left to the machine in the same way.
\<close>

definition install_os_packages_from_files :: "machine \<Rightarrow> string list \<Rightarrow> unit action" where
  "install_os_packages_from_files m files w =
     (case invoke m (InstallOsPackagesFromFiles files) w of
        ((r, err), w') \<Rightarrow>
          (if r \<noteq> 0 then (Inl (InstallFailed files r), w') else (Inr (), w')))"

text \<open>The \<open>os\<close> and \<open>shutil\<close> calls as actions on the world's file system.\<close>

definition os_listdir :: "string \<Rightarrow> string list action" where
  "os_listdir path w = (listdir (fs w) path, w)"

definition os_makedirs :: "string \<Rightarrow> unit action" where
  "os_makedirs path w =
     (case makedirs (fs w) path of
        Inl e \<Rightarrow> (Inl e, w)
      | Inr t \<Rightarrow> (Inr (), w\<lparr>fs := t\<rparr>))"

definition shutil_copytree :: "string \<Rightarrow> string \<Rightarrow> unit action" where
  "shutil_copytree src dst w =
     (case copytree (fs w) src dst of
        Inl e \<Rightarrow> (Inl e, w)
      | Inr t \<Rightarrow> (Inr (), w\<lparr>fs := t\<rparr>))"

text \<open>
  \<open>os.path.expanduser(path)\<close> for the paths the module builds: \<open>~\<close> followed by \<open>/\<close> is
  replaced by the home directory without its trailing slashes; a path that does not start
  with \<open>~\<close> is returned as it is.
\<close>

definition expanduser :: "host \<Rightarrow> string \<Rightarrow> string" where
  "expanduser h path =
     (if starts_with ''~/'' path then rstrip_slash (home h) @ drop 1 path else path)"

subsection \<open>UnimplementedStrategy\<close>

text \<open>
  The class defines \<open>__init__\<close>, \<open>build\<close> and \<open>unimplemented_error\<close>. A call
  \<open>self.name()\<close> first looks \<open>name\<close> up on the object; the only method the class calls
  through \<open>self\<close> is the error method, so that is the one \<open>self_call\<close> dispatches to, and
  any other name is an AttributeError.
\<close>

definition unimplemented_error :: "host \<Rightarrow> error + unit" where
  "unimplemented_error h =
     (let platform = get_platform h;
          distribution = get_distribution h;
          msg_platform =
            (case distribution of
               Some d \<Rightarrow> platform @ '' ('' @ d @ '')''
             | None \<Rightarrow> platform)
      in Inl (FailJson (''irods_build_plugin module cannot be used on platform '' @ msg_platform)))"

definition UnimplementedStrategy_self_call :: "host \<Rightarrow> string \<Rightarrow> error + unit" where
  "UnimplementedStrategy_self_call h name =
     (if name = ''unimplemented_error'' then unimplemented_error h
      else Inl (AttributeError ''UnimplementedStrategy'' name))"

definition UnimplementedStrategy_init :: "host \<Rightarrow> error + unit" where
  "UnimplementedStrategy_init h = UnimplementedStrategy_self_call h ''unimplmented_error''"

definition UnimplementedStrategy_build :: "host \<Rightarrow> unit action" where
  "UnimplementedStrategy_build h = lift (UnimplementedStrategy_self_call h ''unimplmented_error'')"

subsection \<open>GenericStrategy and its three subclasses\<close>

datatype generic_strategy_class = RedHatStrategy | DebianStrategy | SuseStrategy

datatype strategy_class = UnimplementedStrategy | GenericStrategy generic_strategy_class

record strategy =
  cls :: generic_strategy_class
  module_params :: params
  local_plugin_dir :: string

definition GenericStrategy_init :: "host \<Rightarrow> params \<Rightarrow> generic_strategy_class \<Rightarrow> strategy" where
  "GenericStrategy_init h p c =
     \<lparr>cls = c, module_params = p, local_plugin_dir = expanduser h (''~/'' @ plugin_name p)\<rparr>"

fun building_dependencies :: "generic_strategy_class \<Rightarrow> string list" where
  "building_dependencies RedHatStrategy =
     [''git'', ''g++'', ''make'', ''help2man'', ''python-devel'', ''unixODBC'', ''fuse-devel'',
      ''curl-devel'', ''bzip2-devel'', ''zlib-devel'', ''pam-devel'', ''openssl-devel'',
      ''libxml2-devel'', ''krb5-devel'', ''unixODBC-devel'', ''perl-JSON'',
      ''globus-proxy-utils'', ''globus-gssapi-gsi-devel'']"
| "building_dependencies DebianStrategy =
     [''git'', ''g++'', ''make'', ''help2man'', ''python-dev'', ''unixodbc'', ''libfuse-dev'',
      ''libcurl4-gnutls-dev'', ''libbz2-dev'', ''zlib1g-dev'', ''libpam0g-dev'', ''libssl-dev'',
      ''libxml2-dev'', ''libkrb5-dev'', ''unixodbc-dev'', ''libjson-perl'', ''globus-gsi'',
      ''libglobus-gsi-callback-dev'', ''libglobus-gsi-proxy-core-dev'',
      ''libglobus-gssapi-gsi-dev'', ''libglobus-callout-dev'', ''libglobus-gss-assist-dev'']"
| "building_dependencies SuseStrategy =
     [''python-devel'', ''unixODBC'', ''fuse-devel'', ''libcurl-devel'', ''libbz2-devel'',
      ''libopenssl-devel'', ''libxml2-devel'', ''krb5-devel'', ''perl-JSON'', ''unixODBC-devel'']"

definition irods_packages_directory :: "host \<Rightarrow> strategy \<Rightarrow> string" where
  "irods_packages_directory h s =
     path_join (irods_packages_root_directory (module_params s)) (get_irods_platform_string h)"

definition output_directory :: "host \<Rightarrow> strategy \<Rightarrow> string" where
  "output_directory h s =
     path_join (output_root_directory (module_params s)) (get_irods_platform_string h)"

definition install_dev_and_runtime_packages :: "machine \<Rightarrow> host \<Rightarrow> strategy \<Rightarrow> unit action" where
  "install_dev_and_runtime_packages m h s =
     and_then (os_listdir (irods_packages_directory h s)) (\<lambda>names.
     and_then (lift (first (filter (is_substring ''irods-dev-'') names))) (\<lambda>dev_package_basename.
     then_do (install_os_packages_from_files m
                [path_join (irods_packages_directory h s) dev_package_basename])
     (and_then (os_listdir (irods_packages_directory h s)) (\<lambda>names'.
      and_then (lift (first (filter (is_substring ''irods-runtime-'') names')))
        (\<lambda>runtime_package_basename.
      install_os_packages_from_files m
        [path_join (irods_packages_directory h s) runtime_package_basename])))))"

definition GenericStrategy_install_building_dependencies ::
    "machine \<Rightarrow> host \<Rightarrow> strategy \<Rightarrow> unit action" where
  "GenericStrategy_install_building_dependencies m h s =
     then_do (install_os_packages m (building_dependencies (cls s)))
             (install_dev_and_runtime_packages m h s)"

definition globus_repo_url :: string where
  "globus_repo_url =
     ''http://toolkit.globus.org/ftppub/gt6/installers/repo/globus-toolkit-repo_latest_all.deb''"

definition globus_repo_package :: string where
  "globus_repo_package = ''globus-toolkit-repo_latest_all.deb''"

definition DebianStrategy_install_building_dependencies ::
    "machine \<Rightarrow> host \<Rightarrow> strategy \<Rightarrow> unit action" where
  "DebianStrategy_install_building_dependencies m h s =
     then_do (run_command m (Argv [''wget'', globus_repo_url]) True None False)
    (then_do (install_os_packages_from_files m [globus_repo_package])
             (GenericStrategy_install_building_dependencies m h s))"

text \<open>Method resolution: only DebianStrategy overrides the method.\<close>

definition install_building_dependencies :: "machine \<Rightarrow> host \<Rightarrow> strategy \<Rightarrow> unit action" where
  "install_building_dependencies m h s =
     (case cls s of
        DebianStrategy \<Rightarrow> DebianStrategy_install_building_dependencies m h s
      | _ \<Rightarrow> GenericStrategy_install_building_dependencies m h s)"

definition prepare_git_repository :: "machine \<Rightarrow> strategy \<Rightarrow> unit action" where
  "prepare_git_repository m s =
     then_do
       (run_command m
          (Shell (''git clone --recursive '' @ git_repository (module_params s) @ '' '' @
                  local_plugin_dir s))
          True None False)
       (run_command m
          (Shell (''git checkout '' @ git_commitish (module_params s)))
          True (Some (local_plugin_dir s)) False)"

definition build_log :: "host \<Rightarrow> string" where
  "build_log h = ''/projects/irods/terrell/build-'' @ get_irods_platform_string h @ ''.log''"

definition build_plugin_package :: "machine \<Rightarrow> host \<Rightarrow> strategy \<Rightarrow> unit action" where
  "build_plugin_package m h s =
     then_do (os_makedirs (path_join (local_plugin_dir s) ''build''))
       (run_command m
          (Shell (''sudo ./packaging/build.sh -r > \"'' @ build_log h @ ''\" 2>&1''))
          True (Some (local_plugin_dir s)) True)"

definition copy_build_output :: "host \<Rightarrow> strategy \<Rightarrow> unit action" where
  "copy_build_output h s =
     shutil_copytree (path_join (local_plugin_dir s) ''build'') (output_directory h s)"

definition GenericStrategy_build :: "machine \<Rightarrow> host \<Rightarrow> strategy \<Rightarrow> unit action" where
  "GenericStrategy_build m h s =
     then_do (install_building_dependencies m h s)
    (then_do (prepare_git_repository m s)
    (then_do (build_plugin_package m h s)
             (copy_build_output h s)))"

subsection \<open>Builder and its three subclasses\<close>

datatype builder_class = Builder | CentOSBuilder | UbuntuBuilder | OpenSuseBuilder

fun cls_platform :: "builder_class \<Rightarrow> string" where
  "cls_platform Builder = ''Generic''"
| "cls_platform CentOSBuilder = ''Linux''"
| "cls_platform UbuntuBuilder = ''Linux''"
| "cls_platform OpenSuseBuilder = ''Linux''"

fun cls_distribution :: "builder_class \<Rightarrow> string option" where
  "cls_distribution Builder = None"
| "cls_distribution CentOSBuilder = Some ''Centos''"
| "cls_distribution UbuntuBuilder = Some ''Ubuntu''"
| "cls_distribution OpenSuseBuilder = Some ''Opensuse ''"

fun cls_strategy_class :: "builder_class \<Rightarrow> strategy_class" where
  "cls_strategy_class Builder = UnimplementedStrategy"
| "cls_strategy_class CentOSBuilder = GenericStrategy RedHatStrategy"
| "cls_strategy_class UbuntuBuilder = GenericStrategy DebianStrategy"
| "cls_strategy_class OpenSuseBuilder = GenericStrategy SuseStrategy"

text \<open>The subclasses of Builder, in the order the source declares them.\<close>

definition Builder_subclasses :: "builder_class list" where
  "Builder_subclasses = [CentOSBuilder, UbuntuBuilder, OpenSuseBuilder]"

text \<open>
  \<open>load_platform_subclass(Builder)\<close> of \<open>ansible.module_utils.basic\<close>, which
  \<open>Builder.__new__\<close> returns: among the subclasses, the last one whose distribution and
  platform both equal the host's; failing that, the last one with the host's platform and
  no distribution; failing that, Builder itself.
\<close>

definition load_platform_subclass :: "host \<Rightarrow> builder_class" where
  "load_platform_subclass h =
     (let this_platform = get_platform h;
          distribution = get_distribution h;
          subclass =
            (if distribution \<noteq> None then
               fold (\<lambda>sc found.
                       if cls_distribution sc \<noteq> None \<and> cls_distribution sc = distribution \<and>
                          cls_platform sc = this_platform
                       then Some sc else found)
                    Builder_subclasses None
             else None);
          subclass' =
            (if subclass = None then
               fold (\<lambda>sc found.
                       if cls_platform sc = this_platform \<and> cls_distribution sc = None
                       then Some sc else found)
                    Builder_subclasses None
             else subclass)
      in (case subclass' of None \<Rightarrow> Builder | Some sc \<Rightarrow> sc))"

text \<open>The strategy object a builder holds.\<close>

datatype strategy_object = Unimplemented | Generic strategy

record builder =
  builder_class :: builder_class
  strategy :: strategy_object

text \<open>\<open>Builder(module)\<close>: \<open>__new__\<close> picks the class, \<open>__init__\<close> constructs its strategy.\<close>

definition Builder_new_init :: "host \<Rightarrow> params \<Rightarrow> error + builder" where
  "Builder_new_init h p =
     (let c = load_platform_subclass h in
      case cls_strategy_class c of
        UnimplementedStrategy \<Rightarrow>
          (case UnimplementedStrategy_init h of
             Inl e \<Rightarrow> Inl e
           | Inr _ \<Rightarrow> Inr \<lparr>builder_class = c, strategy = Unimplemented\<rparr>)
      | GenericStrategy g \<Rightarrow>
          Inr \<lparr>builder_class = c, strategy = Generic (GenericStrategy_init h p g)\<rparr>)"

definition Builder_build :: "machine \<Rightarrow> host \<Rightarrow> builder \<Rightarrow> unit action" where
  "Builder_build m h b =
     (case strategy b of
        Unimplemented \<Rightarrow> UnimplementedStrategy_build h
      | Generic s \<Rightarrow> GenericStrategy_build m h s)"

subsection \<open>main\<close>

record result =
  changed :: bool
  complex_args :: params

text \<open>
  \<open>main\<close> receives the validated parameters, constructs the builder, builds, and leaves
  through \<open>exit_json\<close> with the result.
\<close>

definition main :: "machine \<Rightarrow> host \<Rightarrow> params \<Rightarrow> result action" where
  "main m h p =
     and_then (lift (Builder_new_init h p)) (\<lambda>builder.
     then_do (Builder_build m h builder)
             (lift (Inr \<lparr>changed = True, complex_args = p\<rparr>)))"

subsection \<open>Observing a run\<close>

text \<open>
  The world a process leaves behind, the external processes an action starts when it runs
  in a given world, and the property that an action only ever adds to the record of calls.
\<close>

definition after :: "machine \<Rightarrow> call \<Rightarrow> world \<Rightarrow> world" where
  "after m c w = \<lparr>fs = fs_after (m w c), calls = calls w @ [c]\<rparr>"

definition calls_of :: "'a action \<Rightarrow> world \<Rightarrow> call list" where
  "calls_of f w = drop (length (calls w)) (calls (snd (f w)))"

definition appends :: "'a action \<Rightarrow> bool" where
  "appends f = (\<forall>w. \<exists>t. calls (snd (f w)) = calls w @ t)"

text \<open>The two processes \<open>prepare_git_repository\<close> starts.\<close>

definition git_clone :: "strategy \<Rightarrow> call" where
  "git_clone s =
     RunCommand (Shell (''git clone --recursive '' @ git_repository (module_params s) @ '' '' @
                        local_plugin_dir s)) None False"

definition git_checkout :: "strategy \<Rightarrow> call" where
  "git_checkout s =
     RunCommand (Shell (''git checkout '' @ git_commitish (module_params s)))
                (Some (local_plugin_dir s)) False"


text \<open>
  The choice the specification words ask for among several matching package files: the
  first in alphabetical order, against \<open>first\<close>, which takes the first the listing gives.
\<close>

definition lexical_first :: "string list \<Rightarrow> error + string" where
  "lexical_first xs = first (sort xs)"

subsection \<open>Example hosts, parameters and worlds\<close>

definition example_host :: host where
  "example_host =
     \<lparr>get_platform = ''Linux'', get_distribution = Some ''Ubuntu'',
      get_irods_platform_string = ''Ubuntu_14'', home = ''/home/irods''\<rparr>"

definition arch_host :: host where
  "arch_host =
     \<lparr>get_platform = ''Linux'', get_distribution = Some ''Arch'',
      get_irods_platform_string = ''Arch_1'', home = ''/home/irods''\<rparr>"

definition example_params :: params where
  "example_params =
     \<lparr>output_root_directory = ''/out'', irods_packages_root_directory = ''/pkgs'',
      plugin_name = ''irods_resource_plugin_s3'', target_os_list = [''Ubuntu_14''],
      git_repository = ''https://example/irods_resource_plugin_s3.git'',
      git_commitish = ''4.1.8'', debug_build = False\<rparr>"

definition example_strategy :: strategy where
  "example_strategy = GenericStrategy_init example_host example_params DebianStrategy"

definition redhat_strategy :: strategy where
  "redhat_strategy = GenericStrategy_init example_host example_params RedHatStrategy"

text \<open>A machine on which every process exits with status 0 and changes no file.\<close>

definition quiet_machine :: machine where
  "quiet_machine w c = \<lparr>rc = 0, stderr = [], fs_after = fs w\<rparr>"

text \<open>
  A machine on which \<open>git clone\<close> exits with status 128 when the text after one of the
  command's blanks names a non-empty directory, and every other process exits with 0.
\<close>

definition clone_target_taken :: "node \<Rightarrow> string \<Rightarrow> bool" where
  "clone_target_taken t s =
     list_ex (\<lambda>i. s ! i = CHR '' '' \<and> nonempty_dir t (drop (Suc i) s)) [0..<length s]"

definition git_machine :: machine where
  "git_machine w c =
     (case c of
        RunCommand (Shell s) cwd sh \<Rightarrow>
          (if starts_with ''git clone '' s \<and> clone_target_taken (fs w) s
           then \<lparr>rc = 128, stderr = ''fatal: destination path already exists'', fs_after = fs w\<rparr>
           else \<lparr>rc = 0, stderr = [], fs_after = fs w\<rparr>)
      | _ \<Rightarrow> \<lparr>rc = 0, stderr = [], fs_after = fs w\<rparr>)"

text \<open>A fresh host: the two iRODS packages are in place, nothing is cloned or built yet.\<close>

definition example_world :: world where
  "example_world =
     \<lparr>fs = Dir [(''pkgs'', Dir [(''Ubuntu_14'',
                   Dir [(''irods-dev-4.1.8.deb'', File), (''irods-runtime-4.1.8.deb'', File)])]),
                (''home'', Dir [(''irods'', Dir [])]),
                (''out'', Dir [])],
      calls = []\<rparr>"

text \<open>The same host with a clone of the plugin already in the home directory.\<close>

definition cloned_world :: world where
  "cloned_world =
     \<lparr>fs = Dir [(''pkgs'', Dir [(''Ubuntu_14'',
                   Dir [(''irods-dev-4.1.8.deb'', File), (''irods-runtime-4.1.8.deb'', File)])]),
                (''home'', Dir [(''irods'', Dir [(''irods_resource_plugin_s3'',
                   Dir [(''README.md'', File)])])]),
                (''out'', Dir [])],
      calls = []\<rparr>"

text \<open>A packages directory that lists a later development package before an earlier one.\<close>

definition unsorted_world :: world where
  "unsorted_world =
     \<lparr>fs = Dir [(''pkgs'', Dir [(''Ubuntu_14'',
                   Dir [(''irods-dev-b.deb'', File), (''irods-dev-a.deb'', File),
                        (''irods-runtime-1.deb'', File)])])],
      calls = []\<rparr>"

text \<open>A packages directory with a development package and no runtime package.\<close>

definition no_runtime_world :: world where
  "no_runtime_world =
     \<lparr>fs = Dir [(''pkgs'', Dir [(''Ubuntu_14'', Dir [(''irods-dev-4.1.8.deb'', File)])])],
      calls = []\<rparr>"

text \<open>A clone whose \<open>build\<close> directory is empty, and no output directory for the platform.\<close>

definition empty_build_world :: world where
  "empty_build_world =
     \<lparr>fs = Dir [(''home'', Dir [(''irods'', Dir [(''irods_resource_plugin_s3'',
                   Dir [(''build'', Dir [])])])]),
                (''out'', Dir [])],
      calls = []\<rparr>"

text \<open>A finished build, and the platform's output directory already there.\<close>

definition collision_world :: world where
  "collision_world =
     \<lparr>fs = Dir [(''home'', Dir [(''irods'', Dir [(''irods_resource_plugin_s3'',
                   Dir [(''build'', Dir [(''plugin.deb'', File)])])])]),
                (''out'', Dir [(''Ubuntu_14'', Dir [(''old.deb'', File)])])],
      calls = []\<rparr>"

text \<open>Parameters that put the output root where the build log goes.\<close>

definition terrell_params :: params where
  "terrell_params = example_params\<lparr>output_root_directory := ''/projects/irods/terrell''\<rparr>"

section \<open>Properties\<close>

subsection \<open>Sequencing and the record of calls\<close>

lemma and_then_apply:
  "and_then f g w = (case f w of (Inl e, w') \<Rightarrow> (Inl e, w') | (Inr x, w') \<Rightarrow> g x w')"
  by (simp add: and_then_def)

lemma then_do_apply:
  "then_do f g w = (case f w of (Inl e, w') \<Rightarrow> (Inl e, w') | (Inr _, w') \<Rightarrow> g w')"
  by (simp add: then_do_def and_then_def)

lemma run_command_apply:
  "run_command m a True cwd sh w =
     (if rc (m w (RunCommand a cwd sh)) \<noteq> 0
      then Inl (CommandFailed a (rc (m w (RunCommand a cwd sh)))
                  (stderr (m w (RunCommand a cwd sh))))
      else Inr (),
      after m (RunCommand a cwd sh) w)"
  by (simp add: run_command_def invoke_def after_def)

lemma install_os_packages_apply:
  "install_os_packages m pkgs w =
     (if rc (m w (InstallOsPackages pkgs)) \<noteq> 0
      then Inl (InstallFailed pkgs (rc (m w (InstallOsPackages pkgs))))
      else Inr (),
      after m (InstallOsPackages pkgs) w)"
  by (simp add: install_os_packages_def invoke_def after_def)

lemma install_os_packages_from_files_apply:
  "install_os_packages_from_files m files w =
     (if rc (m w (InstallOsPackagesFromFiles files)) \<noteq> 0
      then Inl (InstallFailed files (rc (m w (InstallOsPackagesFromFiles files))))
      else Inr (),
      after m (InstallOsPackagesFromFiles files) w)"
  by (simp add: install_os_packages_from_files_def invoke_def after_def)

lemma appendsI: "(\<And>w. \<exists>t. calls (snd (f w)) = calls w @ t) \<Longrightarrow> appends f"
  by (simp add: appends_def)

lemma appendsD: "appends f \<Longrightarrow> \<exists>t. calls (snd (f w)) = calls w @ t"
  by (simp add: appends_def)

lemma appends_calls_of: "appends f \<Longrightarrow> calls (snd (f w)) = calls w @ calls_of f w"
  by (auto simp add: calls_of_def dest: appendsD [of f w])

lemma appends_lift: "appends (lift r)"
  by (simp add: appends_def lift_def)

lemma appends_and_then:
  assumes "appends f" and "\<And>x. appends (g x)"
  shows "appends (and_then f g)"
proof (rule appendsI)
  fix w
  obtain r w1 where f: "f w = (r, w1)" by (cases "f w")
  from appendsD [OF assms(1), of w] f obtain t where t: "calls w1 = calls w @ t" by auto
  show "\<exists>t. calls (snd (and_then f g w)) = calls w @ t"
  proof (cases r)
    case (Inl e)
    with f t show ?thesis by (simp add: and_then_def)
  next
    case (Inr x)
    from appendsD [OF assms(2), of x w1]
    obtain u where "calls (snd (g x w1)) = calls w1 @ u" by auto
    with Inr f t show ?thesis by (simp add: and_then_def)
  qed
qed

lemma appends_then_do: "appends f \<Longrightarrow> appends g \<Longrightarrow> appends (then_do f g)"
  by (simp add: then_do_def appends_and_then)

lemma appends_run_command: "appends (run_command m a c cwd sh)"
  by (simp add: appends_def run_command_def invoke_def)

lemma appends_install_os_packages: "appends (install_os_packages m pkgs)"
  by (simp add: appends_def install_os_packages_def invoke_def)

lemma appends_install_os_packages_from_files: "appends (install_os_packages_from_files m files)"
  by (simp add: appends_def install_os_packages_from_files_def invoke_def)

lemma appends_os_listdir: "appends (os_listdir path)"
  by (simp add: appends_def os_listdir_def)

lemma appends_os_makedirs: "appends (os_makedirs path)"
  by (simp add: appends_def os_makedirs_def split: sum.split)

lemma appends_shutil_copytree: "appends (shutil_copytree src dst)"
  by (simp add: appends_def shutil_copytree_def split: sum.split)

lemmas appends_intros =
  appends_lift appends_and_then appends_then_do appends_run_command appends_install_os_packages
  appends_install_os_packages_from_files appends_os_listdir appends_os_makedirs
  appends_shutil_copytree

lemma appends_install_dev_and_runtime_packages:
  "appends (install_dev_and_runtime_packages m h s)"
  unfolding install_dev_and_runtime_packages_def by (intro appends_intros)

lemma appends_GenericStrategy_install_building_dependencies:
  "appends (GenericStrategy_install_building_dependencies m h s)"
  unfolding GenericStrategy_install_building_dependencies_def
  by (intro appends_intros appends_install_dev_and_runtime_packages)

lemma appends_install_building_dependencies: "appends (install_building_dependencies m h s)"
  unfolding install_building_dependencies_def DebianStrategy_install_building_dependencies_def
  by (cases "cls s")
     (simp_all add: appends_intros appends_GenericStrategy_install_building_dependencies)

lemma appends_prepare_git_repository: "appends (prepare_git_repository m s)"
  unfolding prepare_git_repository_def by (intro appends_intros)

lemma appends_build_plugin_package: "appends (build_plugin_package m h s)"
  unfolding build_plugin_package_def by (intro appends_intros)

lemma appends_copy_build_output: "appends (copy_build_output h s)"
  unfolding copy_build_output_def by (intro appends_intros)

lemma calls_of_then_do:
  assumes "appends f" and "appends g"
  shows "calls_of (then_do f g) w =
           calls_of f w @ (case f w of (Inl e, w') \<Rightarrow> [] | (Inr _, w') \<Rightarrow> calls_of g w')"
proof -
  obtain r w1 where f: "f w = (r, w1)" by (cases "f w")
  from appends_calls_of [OF assms(1), of w] f
  have w1: "calls w1 = calls w @ calls_of f w" by simp
  show ?thesis
  proof (cases r)
    case (Inl e)
    with f show ?thesis by (simp add: calls_of_def then_do_apply)
  next
    case (Inr x)
    from appends_calls_of [OF assms(2), of w1]
    have "calls (snd (g w1)) = calls w @ calls_of f w @ calls_of g w1" using w1 by simp
    with Inr f show ?thesis by (simp add: then_do_apply calls_of_def [of "then_do f g"])
  qed
qed

subsection \<open>Paths and the file system\<close>

lemma split_on_no_sep: "sep \<notin> set s \<Longrightarrow> split_on sep s = [s]"
  by (induction s) auto

lemma split_path_build_log:
  assumes "CHR ''/'' \<notin> set (get_irods_platform_string h)"
  shows "split_path (build_log h) =
           [''projects'', ''irods'', ''terrell'',
            ''build-'' @ get_irods_platform_string h @ ''.log'']"
proof -
  have "CHR ''/'' \<notin> set (get_irods_platform_string h @ ''.log'')"
    using assms by simp
  then have "split_on CHR ''/'' (get_irods_platform_string h @ ''.log'') =
               [get_irods_platform_string h @ ''.log'']"
    by (rule split_on_no_sep)
  then show ?thesis
    by (simp add: split_path_def build_log_def)
qed

lemma is_prefix_shorter:
  "is_prefix xs [a, b, c, d] \<Longrightarrow> xs \<noteq> [a, b, c, d] \<Longrightarrow> is_prefix xs [a, b, c]"
  by (cases xs; cases "tl xs"; cases "tl (tl xs)"; cases "tl (tl (tl xs))";
      cases "tl (tl (tl (tl xs)))") auto

lemma lookup_below_empty_dir:
  "lookup t xs = Some (Dir []) \<Longrightarrow> lookup t (xs @ c # ys) = None"
proof (induction xs arbitrary: t)
  case Nil
  then show ?case by simp
next
  case (Cons x xs)
  then show ?case
    by (cases t) (auto split: option.splits)
qed

lemma empty_source_not_into_itself:
  assumes "empty_dir t src"
  shows "\<not> copies_into_itself t src dst"
proof -
  from assms have src: "lookup t (split_path src) = Some (Dir [])"
    by (simp add: empty_dir_def)
  show ?thesis
    by (auto simp add: copies_into_itself_def
          lookup_below_empty_dir [OF src, of _ "[]", simplified] split: list.splits)
qed

lemma copytree_empty_source:
  assumes "empty_dir t src" and "makedirs t dst = Inr t'"
  shows "copytree t src dst = Inr t'"
proof -
  from assms(1) have src: "lookup t (split_path src) = Some (Dir [])"
    by (simp add: empty_dir_def)
  from assms(2) have dst: "lookup t (split_path dst) = None"
    and g: "graft t (split_path dst) (Dir []) = Some t'"
    by (auto simp add: makedirs_def split: option.splits)
  from src dst g empty_source_not_into_itself [OF assms(1), of dst]
  show ?thesis by (simp add: copytree_def)
qed

subsection \<open>The example machines\<close>



lemma load_platform_subclass_cases:
  "load_platform_subclass h =
     (if get_platform h = ''Linux'' \<and> get_distribution h = Some ''Opensuse '' then OpenSuseBuilder
      else if get_platform h = ''Linux'' \<and> get_distribution h = Some ''Ubuntu'' then UbuntuBuilder
      else if get_platform h = ''Linux'' \<and> get_distribution h = Some ''Centos'' then CentOSBuilder
      else Builder)"
  by (cases "get_distribution h")
     (auto simp add: load_platform_subclass_def Builder_subclasses_def Let_def)

lemma UnimplementedStrategy_init_fails:
  "UnimplementedStrategy_init h =
     Inl (AttributeError ''UnimplementedStrategy'' ''unimplmented_error'')"
  by (simp add: UnimplementedStrategy_init_def UnimplementedStrategy_self_call_def)

section \<open>The specification's claims\<close>

subsection \<open>Selecting the strategy\<close>

text \<open>
  C1 (as the code has it). For every platform tag, the strategy selector maps (Linux, Centos)
  to the RedHat-family strategy, (Linux, Ubuntu) to the Debian-family strategy, and
  (Linux, \<open>Opensuse \<close>), the distribution name with the trailing blank that the class
  attribute of OpenSuseBuilder carries, to the Suse-family strategy; any other tag goes to
  the unsupported-platform strategy. The match is exact and case-sensitive, with no
  fallback.
\<close>

theorem strategy_selector_table:
  "cls_strategy_class (load_platform_subclass h) =
     (if get_platform h = ''Linux'' \<and> get_distribution h = Some ''Centos''
        then GenericStrategy RedHatStrategy
      else if get_platform h = ''Linux'' \<and> get_distribution h = Some ''Ubuntu''
        then GenericStrategy DebianStrategy
      else if get_platform h = ''Linux'' \<and> get_distribution h = Some ''Opensuse ''
        then GenericStrategy SuseStrategy
      else UnimplementedStrategy)"
  by (simp add: load_platform_subclass_cases)

text \<open>The table at two tags: the Suse key as the source spells it, and a lower-case Ubuntu.\<close>

theorem strategy_selector_table_witness:
  "cls_strategy_class (load_platform_subclass
      \<lparr>get_platform = ''Linux'', get_distribution = Some ''Opensuse '',
       get_irods_platform_string = ''Suse_13'', home = ''/root''\<rparr>) = GenericStrategy SuseStrategy
   \<and> cls_strategy_class (load_platform_subclass
      \<lparr>get_platform = ''Linux'', get_distribution = Some ''ubuntu'',
       get_irods_platform_string = ''Ubuntu_14'', home = ''/root''\<rparr>) = UnimplementedStrategy"
  using strategy_selector_table
          [of "\<lparr>get_platform = ''Linux'', get_distribution = Some ''Opensuse '',
                get_irods_platform_string = ''Suse_13'', home = ''/root''\<rparr>"]
        strategy_selector_table
          [of "\<lparr>get_platform = ''Linux'', get_distribution = Some ''ubuntu'',
                get_irods_platform_string = ''Ubuntu_14'', home = ''/root''\<rparr>"]
  by simp

text \<open>
  The tag (Linux, Opensuse), without the blank, is not in the table: it selects the
  unsupported-platform strategy, not the Suse-family one.
\<close>

theorem strategy_selector_opensuse_counterexample:
  "cls_strategy_class (load_platform_subclass
      \<lparr>get_platform = ''Linux'', get_distribution = Some ''Opensuse'',
       get_irods_platform_string = ''Suse_13'', home = ''/root''\<rparr>) = UnimplementedStrategy
   \<and> cls_strategy_class (load_platform_subclass
      \<lparr>get_platform = ''Linux'', get_distribution = Some ''Opensuse'',
       get_irods_platform_string = ''Suse_13'', home = ''/root''\<rparr>) \<noteq> GenericStrategy SuseStrategy"
  by (simp add: load_platform_subclass_def Builder_subclasses_def Let_def)

subsection \<open>The unsupported platform\<close>

text \<open>
  C2. On the host (Linux, Arch) the build of the unsupported-platform strategy starts no
  external process and fails, but not with the message the class prepares: \<open>build\<close> calls
  \<open>self.unimplmented_error\<close>, the class defines \<open>unimplemented_error\<close>, and the call
  raises AttributeError. The message naming platform and distribution is what
  \<open>unimplemented_error\<close> would have reported.
\<close>

theorem unimplemented_build_attribute_error:
  "UnimplementedStrategy_build arch_host example_world =
     (Inl (AttributeError ''UnimplementedStrategy'' ''unimplmented_error''), example_world)
   \<and> unimplemented_error arch_host =
     Inl (FailJson ''irods_build_plugin module cannot be used on platform Linux (Arch)'')"
  by (simp add: UnimplementedStrategy_build_def UnimplementedStrategy_self_call_def lift_def
        unimplemented_error_def Let_def arch_host_def)

text \<open>
  C10. On an unsupported platform, one for which \<open>load_platform_subclass\<close> finds no subclass
  and returns Builder itself, constructing the builder already raises the error: it comes
  from the constructor of the strategy, \<open>main\<close> ends with it in the world it started in,
  and no build method of any strategy has run.
\<close>

theorem unsupported_platform_fails_in_construction:
  assumes "load_platform_subclass h = Builder"
  shows "Builder_new_init h p =
           Inl (AttributeError ''UnimplementedStrategy'' ''unimplmented_error'')
         \<and> main m h p w =
           (Inl (AttributeError ''UnimplementedStrategy'' ''unimplmented_error''), w)"
  using assms
  by (simp add: Builder_new_init_def main_def and_then_def lift_def
        UnimplementedStrategy_init_fails)

text \<open>On the host (Linux, Arch) no subclass matches, and \<open>main\<close> ends in the constructor.\<close>

theorem unsupported_platform_fails_in_construction_witness:
  "load_platform_subclass arch_host = Builder
   \<and> Builder_new_init arch_host example_params =
       Inl (AttributeError ''UnimplementedStrategy'' ''unimplmented_error'')
   \<and> main quiet_machine arch_host example_params example_world =
       (Inl (AttributeError ''UnimplementedStrategy'' ''unimplmented_error''), example_world)"
proof -
  have a: "load_platform_subclass arch_host = Builder"
    by (simp add: load_platform_subclass_cases arch_host_def)
  from a unsupported_platform_fails_in_construction
           [OF a, of example_params quiet_machine example_world]
  show ?thesis by simp
qed

subsection \<open>Installing the dependencies\<close>

text \<open>
  C3 (as the code has it). During dependency installation the packages directory is listed,
  and exactly one file whose name contains \<open>irods-dev-\<close> is installed; the directory is
  listed again, and exactly one file whose name contains \<open>irods-runtime-\<close> is installed.
  Of several files that match a marker the first in the order of the directory listing is
  taken. If no file matches a marker the step fails with IndexError in the world it had
  reached: no package-manager call is made for that package.
\<close>

theorem install_dev_and_runtime_packages_first_listed:
  "install_dev_and_runtime_packages m h s w =
     (case listdir (fs w) (irods_packages_directory h s) of
        Inl e \<Rightarrow> (Inl e, w)
      | Inr names \<Rightarrow>
          (case filter (is_substring ''irods-dev-'') names of
             [] \<Rightarrow> (Inl IndexError, w)
           | dev # _ \<Rightarrow>
               (case install_os_packages_from_files m
                       [path_join (irods_packages_directory h s) dev] w of
                  (Inl e, w1) \<Rightarrow> (Inl e, w1)
                | (Inr _, w1) \<Rightarrow>
                    (case listdir (fs w1) (irods_packages_directory h s) of
                       Inl e \<Rightarrow> (Inl e, w1)
                     | Inr names' \<Rightarrow>
                         (case filter (is_substring ''irods-runtime-'') names' of
                            [] \<Rightarrow> (Inl IndexError, w1)
                          | rt # _ \<Rightarrow>
                              install_os_packages_from_files m
                                [path_join (irods_packages_directory h s) rt] w1)))))
   \<and> calls_of (install_dev_and_runtime_packages m h s) w =
     (case listdir (fs w) (irods_packages_directory h s) of
        Inl e \<Rightarrow> []
      | Inr names \<Rightarrow>
          (case filter (is_substring ''irods-dev-'') names of
             [] \<Rightarrow> []
           | dev # _ \<Rightarrow>
               InstallOsPackagesFromFiles [path_join (irods_packages_directory h s) dev] #
               (case install_os_packages_from_files m
                       [path_join (irods_packages_directory h s) dev] w of
                  (Inl e, w1) \<Rightarrow> []
                | (Inr _, w1) \<Rightarrow>
                    (case listdir (fs w1) (irods_packages_directory h s) of
                       Inl e \<Rightarrow> []
                     | Inr names' \<Rightarrow>
                         (case filter (is_substring ''irods-runtime-'') names' of
                            [] \<Rightarrow> []
                          | rt # _ \<Rightarrow>
                              [InstallOsPackagesFromFiles
                                 [path_join (irods_packages_directory h s) rt]])))))"
proof
  show "install_dev_and_runtime_packages m h s w =
     (case listdir (fs w) (irods_packages_directory h s) of
        Inl e \<Rightarrow> (Inl e, w)
      | Inr names \<Rightarrow>
          (case filter (is_substring ''irods-dev-'') names of
             [] \<Rightarrow> (Inl IndexError, w)
           | dev # _ \<Rightarrow>
               (case install_os_packages_from_files m
                       [path_join (irods_packages_directory h s) dev] w of
                  (Inl e, w1) \<Rightarrow> (Inl e, w1)
                | (Inr _, w1) \<Rightarrow>
                    (case listdir (fs w1) (irods_packages_directory h s) of
                       Inl e \<Rightarrow> (Inl e, w1)
                     | Inr names' \<Rightarrow>
                         (case filter (is_substring ''irods-runtime-'') names' of
                            [] \<Rightarrow> (Inl IndexError, w1)
                          | rt # _ \<Rightarrow>
                              install_os_packages_from_files m
                                [path_join (irods_packages_directory h s) rt] w1)))))"
    by (simp add: install_dev_and_runtime_packages_def and_then_apply then_do_apply os_listdir_def
          lift_def first_def split: sum.split list.split prod.split)
  then show "calls_of (install_dev_and_runtime_packages m h s) w =
     (case listdir (fs w) (irods_packages_directory h s) of
        Inl e \<Rightarrow> []
      | Inr names \<Rightarrow>
          (case filter (is_substring ''irods-dev-'') names of
             [] \<Rightarrow> []
           | dev # _ \<Rightarrow>
               InstallOsPackagesFromFiles [path_join (irods_packages_directory h s) dev] #
               (case install_os_packages_from_files m
                       [path_join (irods_packages_directory h s) dev] w of
                  (Inl e, w1) \<Rightarrow> []
                | (Inr _, w1) \<Rightarrow>
                    (case listdir (fs w1) (irods_packages_directory h s) of
                       Inl e \<Rightarrow> []
                     | Inr names' \<Rightarrow>
                         (case filter (is_substring ''irods-runtime-'') names' of
                            [] \<Rightarrow> []
                          | rt # _ \<Rightarrow>
                              [InstallOsPackagesFromFiles
                                 [path_join (irods_packages_directory h s) rt]])))))"
    by (simp add: calls_of_def install_os_packages_from_files_apply after_def
          split: sum.split list.split)
qed

text \<open>
  With no runtime package in the directory, the development package is installed and the
  step fails before any call for a runtime package.
\<close>

theorem install_dev_and_runtime_packages_first_listed_witness:
  "install_dev_and_runtime_packages quiet_machine example_host example_strategy no_runtime_world =
     (Inl IndexError,
      \<lparr>fs = fs no_runtime_world,
       calls = [InstallOsPackagesFromFiles [''/pkgs/Ubuntu_14/irods-dev-4.1.8.deb'']]\<rparr>)"
  by (subst install_dev_and_runtime_packages_first_listed [THEN conjunct1]) code_simp

text \<open>
  A listing that gives \<open>irods-dev-b.deb\<close> before \<open>irods-dev-a.deb\<close>: the package installed
  is \<open>irods-dev-b.deb\<close>, the first listed, while the first in alphabetical order is
  \<open>irods-dev-a.deb\<close>.
\<close>

theorem install_dev_package_listing_order_counterexample:
  "listdir (fs unsorted_world) (irods_packages_directory example_host example_strategy) =
     Inr [''irods-dev-b.deb'', ''irods-dev-a.deb'', ''irods-runtime-1.deb'']
   \<and> calls (snd (install_dev_and_runtime_packages quiet_machine example_host example_strategy
                   unsorted_world)) =
     [InstallOsPackagesFromFiles [''/pkgs/Ubuntu_14/irods-dev-b.deb''],
      InstallOsPackagesFromFiles [''/pkgs/Ubuntu_14/irods-runtime-1.deb'']]
   \<and> lexical_first (filter (is_substring ''irods-dev-'')
        [''irods-dev-b.deb'', ''irods-dev-a.deb'', ''irods-runtime-1.deb'']) =
     Inr ''irods-dev-a.deb''"
  by code_simp

text \<open>
  C6. For the Debian-family strategy only, dependency installation first downloads the
  repository-descriptor package with wget and installs it from the file, and only then
  installs the main dependency list, followed by the development and runtime packages;
  a failure of the download or of the descriptor's installation ends the step. For the
  other strategies the first process started is the installation of the dependency list:
  they have no pre-install step.
\<close>

theorem debian_registers_repository_first:
  "install_building_dependencies m h s w =
     (if cls s = DebianStrategy then
        (case run_command m (Argv [''wget'', globus_repo_url]) True None False w of
           (Inl e, w1) \<Rightarrow> (Inl e, w1)
         | (Inr _, w1) \<Rightarrow>
             (case install_os_packages_from_files m [globus_repo_package] w1 of
                (Inl e, w2) \<Rightarrow> (Inl e, w2)
              | (Inr _, w2) \<Rightarrow>
                  (case install_os_packages m (building_dependencies DebianStrategy) w2 of
                     (Inl e, w3) \<Rightarrow> (Inl e, w3)
                   | (Inr _, w3) \<Rightarrow> install_dev_and_runtime_packages m h s w3)))
      else
        (case install_os_packages m (building_dependencies (cls s)) w of
           (Inl e, w1) \<Rightarrow> (Inl e, w1)
         | (Inr _, w1) \<Rightarrow> install_dev_and_runtime_packages m h s w1))
   \<and> take 1 (calls_of (install_building_dependencies m h s) w) =
     (if cls s = DebianStrategy
      then [RunCommand (Argv [''wget'', globus_repo_url]) None False]
      else [InstallOsPackages (building_dependencies (cls s))])
   \<and> globus_repo_url =
       ''http://toolkit.globus.org/ftppub/gt6/installers/repo/globus-toolkit-repo_latest_all.deb''
   \<and> globus_repo_package = ''globus-toolkit-repo_latest_all.deb''"
proof (intro conjI)
  show "install_building_dependencies m h s w =
     (if cls s = DebianStrategy then
        (case run_command m (Argv [''wget'', globus_repo_url]) True None False w of
           (Inl e, w1) \<Rightarrow> (Inl e, w1)
         | (Inr _, w1) \<Rightarrow>
             (case install_os_packages_from_files m [globus_repo_package] w1 of
                (Inl e, w2) \<Rightarrow> (Inl e, w2)
              | (Inr _, w2) \<Rightarrow>
                  (case install_os_packages m (building_dependencies DebianStrategy) w2 of
                     (Inl e, w3) \<Rightarrow> (Inl e, w3)
                   | (Inr _, w3) \<Rightarrow> install_dev_and_runtime_packages m h s w3)))
      else
        (case install_os_packages m (building_dependencies (cls s)) w of
           (Inl e, w1) \<Rightarrow> (Inl e, w1)
         | (Inr _, w1) \<Rightarrow> install_dev_and_runtime_packages m h s w1))"
    by (cases "cls s")
       (simp_all add: install_building_dependencies_def
          DebianStrategy_install_building_dependencies_def
          GenericStrategy_install_building_dependencies_def then_do_apply
          split: prod.split sum.split)
next
  have g1: "take 1 (calls_of (GenericStrategy_install_building_dependencies m h s) w) =
              [InstallOsPackages (building_dependencies (cls s))]"
    unfolding GenericStrategy_install_building_dependencies_def
    by (simp add: calls_of_then_do appends_intros appends_install_dev_and_runtime_packages
          calls_of_def [of "install_os_packages m (building_dependencies (cls s))"]
          install_os_packages_apply after_def)
  have d1: "take 1 (calls_of (DebianStrategy_install_building_dependencies m h s) w) =
              [RunCommand (Argv [''wget'', globus_repo_url]) None False]"
    unfolding DebianStrategy_install_building_dependencies_def
    by (simp add: calls_of_then_do appends_intros
          appends_GenericStrategy_install_building_dependencies
          calls_of_def [of "run_command m (Argv [''wget'', globus_repo_url]) True None False"]
          run_command_apply after_def)
  show "take 1 (calls_of (install_building_dependencies m h s) w) =
     (if cls s = DebianStrategy
      then [RunCommand (Argv [''wget'', globus_repo_url]) None False]
      else [InstallOsPackages (building_dependencies (cls s))])"
    using g1 d1 by (cases "cls s") (simp_all add: install_building_dependencies_def)
qed (simp_all add: globus_repo_url_def globus_repo_package_def)

text \<open>
  On the example host the Debian-family strategy starts with the download and goes on to
  the descriptor and the dependency list; the RedHat-family strategy starts with its
  dependency list.
\<close>

theorem debian_registers_repository_first_witness:
  "take 3 (calls_of (install_building_dependencies quiet_machine example_host example_strategy)
             example_world) =
     [RunCommand (Argv [''wget'',
        ''http://toolkit.globus.org/ftppub/gt6/installers/repo/globus-toolkit-repo_latest_all.deb''])
        None False,
      InstallOsPackagesFromFiles [''globus-toolkit-repo_latest_all.deb''],
      InstallOsPackages (building_dependencies DebianStrategy)]
   \<and> take 1 (calls_of (install_building_dependencies quiet_machine example_host redhat_strategy)
               example_world) =
     [InstallOsPackages (building_dependencies RedHatStrategy)]"
proof
  show "take 3 (calls_of (install_building_dependencies quiet_machine example_host example_strategy)
             example_world) =
     [RunCommand (Argv [''wget'',
        ''http://toolkit.globus.org/ftppub/gt6/installers/repo/globus-toolkit-repo_latest_all.deb''])
        None False,
      InstallOsPackagesFromFiles [''globus-toolkit-repo_latest_all.deb''],
      InstallOsPackages (building_dependencies DebianStrategy)]"
    unfolding calls_of_def
    by (subst debian_registers_repository_first [THEN conjunct1]) code_simp
next
  have r: "cls redhat_strategy = RedHatStrategy"
    by (simp add: redhat_strategy_def GenericStrategy_init_def)
  from debian_registers_repository_first
         [of quiet_machine example_host redhat_strategy example_world, THEN conjunct2,
          THEN conjunct1]
  show "take 1 (calls_of (install_building_dependencies quiet_machine example_host redhat_strategy)
               example_world) =
     [InstallOsPackages (building_dependencies RedHatStrategy)]"
    by (simp only: r generic_strategy_class.distinct if_False)
qed

subsection \<open>Fetching the source\<close>



subsection \<open>Running the build script\<close>

text \<open>
  C9 (as the code has it). For every run, the build-script step, once it has created the
  \<open>build\<close> directory, starts one process: the build script under sudo, in a shell, with
  its combined output redirected to the log file
  \<open>/projects/irods/terrell/build-<platform string>.log\<close>. That path is fixed: it is
  computed from the host's platform string alone and from no field of the build request.
  It lies outside every directory that is not \<open>/projects/irods/terrell\<close> or one of its
  ancestors (for a platform string without a slash); the cloned repository and the
  configured output root are outside it only in so far as the request does not place
  them there.
\<close>

theorem build_log_fixed_path:
  "calls_of (build_plugin_package m h s) w =
     (case makedirs (fs w) (path_join (local_plugin_dir s) ''build'') of
        Inl e \<Rightarrow> []
      | Inr t \<Rightarrow>
          [RunCommand
             (Shell (''sudo ./packaging/build.sh -r > \"/projects/irods/terrell/build-'' @
                     get_irods_platform_string h @ ''.log\" 2>&1''))
             (Some (local_plugin_dir s)) True])
   \<and> build_log h = ''/projects/irods/terrell/build-'' @ get_irods_platform_string h @ ''.log''
   \<and> (CHR ''/'' \<notin> set (get_irods_platform_string h) \<longrightarrow>
        \<not> is_prefix (split_path d) [''projects'', ''irods'', ''terrell''] \<longrightarrow>
        \<not> inside_dir d (build_log h))"
proof (intro conjI impI)
  show "calls_of (build_plugin_package m h s) w =
     (case makedirs (fs w) (path_join (local_plugin_dir s) ''build'') of
        Inl e \<Rightarrow> []
      | Inr t \<Rightarrow>
          [RunCommand
             (Shell (''sudo ./packaging/build.sh -r > \"/projects/irods/terrell/build-'' @
                     get_irods_platform_string h @ ''.log\" 2>&1''))
             (Some (local_plugin_dir s)) True])"
    by (simp add: build_plugin_package_def then_do_apply os_makedirs_def calls_of_def
          run_command_apply after_def build_log_def split: sum.split)
next
  show "build_log h = ''/projects/irods/terrell/build-'' @ get_irods_platform_string h @ ''.log''"
    by (simp add: build_log_def)
next
  assume a: "CHR ''/'' \<notin> set (get_irods_platform_string h)"
    and b: "\<not> is_prefix (split_path d) [''projects'', ''irods'', ''terrell'']"
  show "\<not> inside_dir d (build_log h)"
    using b is_prefix_shorter [of "split_path d"]
    by (auto simp add: inside_dir_def split_path_build_log [OF a])
qed

text \<open>
  With the example parameters neither the clone in the home directory nor the output root
  \<open>/out\<close> holds the log.
\<close>

theorem build_log_fixed_path_witness:
  "\<not> inside_dir (output_root_directory example_params) (build_log example_host)
   \<and> \<not> inside_dir (local_plugin_dir example_strategy) (build_log example_host)"
proof -
  have a: "CHR ''/'' \<notin> set (get_irods_platform_string example_host)"
    by (simp add: example_host_def)
  have b: "\<not> is_prefix (split_path (output_root_directory example_params))
                [''projects'', ''irods'', ''terrell'']"
    by code_simp
  have c: "\<not> is_prefix (split_path (local_plugin_dir example_strategy))
                [''projects'', ''irods'', ''terrell'']"
    by code_simp
  from build_log_fixed_path [THEN conjunct2, THEN conjunct2, rule_format, OF a b]
       build_log_fixed_path [THEN conjunct2, THEN conjunct2, rule_format, OF a c]
  show ?thesis by blast
qed

text \<open>
  A request whose output root is \<open>/projects/irods/terrell\<close>: the step writes its log to
  \<open>/projects/irods/terrell/build-Ubuntu_14.log\<close>, inside the configured output root.
\<close>

theorem build_log_inside_output_root_counterexample:
  "output_root_directory terrell_params = ''/projects/irods/terrell''
   \<and> calls_of (build_plugin_package quiet_machine example_host
                 (GenericStrategy_init example_host terrell_params DebianStrategy))
        example_world =
     [RunCommand
        (Shell ''sudo ./packaging/build.sh -r > \"/projects/irods/terrell/build-Ubuntu_14.log\" 2>&1'')
        (Some ''/home/irods/irods_resource_plugin_s3'') True]
   \<and> inside_dir (output_root_directory terrell_params) ''/projects/irods/terrell/build-Ubuntu_14.log''"
  by code_simp

subsection \<open>Collecting the output\<close>

text \<open>
  C4 (as the code has it). For every run, the collect-output step fails, leaving the file
  system as it was (no file is overwritten), if the destination output directory already
  exists, and also if the source \<open>build\<close> directory is missing (is not a directory). An
  empty \<open>build\<close> directory is not refused: the step then does what \<open>os.makedirs\<close> does on
  the output directory, and succeeds with an empty output directory when that succeeds.
\<close>

theorem copy_build_output_failures:
  "(path_exists (fs w) (output_directory h s) \<longrightarrow>
      copy_build_output h s w =
        (Inl (OSError (if is_dir (fs w) (path_join (local_plugin_dir s) ''build'')
                       then output_directory h s
                       else path_join (local_plugin_dir s) ''build'')), w))
   \<and> (\<not> is_dir (fs w) (path_join (local_plugin_dir s) ''build'') \<longrightarrow>
      copy_build_output h s w = (Inl (OSError (path_join (local_plugin_dir s) ''build'')), w))
   \<and> (empty_dir (fs w) (path_join (local_plugin_dir s) ''build'') \<longrightarrow>
      copy_build_output h s w =
        (case makedirs (fs w) (output_directory h s) of
           Inl e \<Rightarrow> (Inl e, w)
         | Inr t \<Rightarrow> (Inr (), w\<lparr>fs := t\<rparr>)))"
proof (intro conjI impI)
  assume "path_exists (fs w) (output_directory h s)"
  then show "copy_build_output h s w =
        (Inl (OSError (if is_dir (fs w) (path_join (local_plugin_dir s) ''build'')
                       then output_directory h s
                       else path_join (local_plugin_dir s) ''build'')), w)"
    by (auto simp add: copy_build_output_def shutil_copytree_def copytree_def path_exists_def
          is_dir_def split: option.splits node.splits)
next
  assume "\<not> is_dir (fs w) (path_join (local_plugin_dir s) ''build'')"
  then show "copy_build_output h s w =
               (Inl (OSError (path_join (local_plugin_dir s) ''build'')), w)"
    by (auto simp add: copy_build_output_def shutil_copytree_def copytree_def is_dir_def
          split: option.splits node.splits)
next
  assume e: "empty_dir (fs w) (path_join (local_plugin_dir s) ''build'')"
  show "copy_build_output h s w =
        (case makedirs (fs w) (output_directory h s) of
           Inl e \<Rightarrow> (Inl e, w)
         | Inr t \<Rightarrow> (Inr (), w\<lparr>fs := t\<rparr>))"
  proof (cases "makedirs (fs w) (output_directory h s)")
    case (Inr t)
    with copytree_empty_source [OF e Inr] show ?thesis
      by (simp add: copy_build_output_def shutil_copytree_def)
  next
    case (Inl x)
    then have x: "x = OSError (output_directory h s)"
      by (auto simp add: makedirs_def split: option.splits)
    from e have src: "lookup (fs w) (split_path (path_join (local_plugin_dir s) ''build'')) =
                        Some (Dir [])"
      by (simp add: empty_dir_def)
    from Inl x src empty_source_not_into_itself [OF e, of "output_directory h s"]
    show ?thesis
      by (auto simp add: copy_build_output_def shutil_copytree_def copytree_def makedirs_def
            split: option.splits)
  qed
qed

text \<open>
  An output directory that is already there, and a clone that has no \<open>build\<close> directory:
  both fail and leave the world as it was. An empty \<open>build\<close> directory: the output
  directory is created.
\<close>

theorem copy_build_output_failures_witness:
  "path_exists (fs collision_world) (output_directory example_host example_strategy)
   \<and> copy_build_output example_host example_strategy collision_world =
       (Inl (OSError ''/out/Ubuntu_14''), collision_world)
   \<and> copy_build_output example_host example_strategy cloned_world =
       (Inl (OSError ''/home/irods/irods_resource_plugin_s3/build''), cloned_world)
   \<and> copy_build_output example_host example_strategy empty_build_world =
       (Inr (),
        empty_build_world
          \<lparr>fs := Dir [(''home'', Dir [(''irods'', Dir [(''irods_resource_plugin_s3'',
                          Dir [(''build'', Dir [])])])]),
                       (''out'', Dir [(''Ubuntu_14'', Dir [])])]\<rparr>)"
proof -
  have a: "path_exists (fs collision_world) (output_directory example_host example_strategy)"
    by code_simp
  have f: "empty_dir (fs empty_build_world)
             (path_join (local_plugin_dir example_strategy) ''build'')"
    by code_simp
  have g: "makedirs (fs empty_build_world) (output_directory example_host example_strategy) =
             Inr (Dir [(''home'', Dir [(''irods'', Dir [(''irods_resource_plugin_s3'',
                          Dir [(''build'', Dir [])])])]),
                       (''out'', Dir [(''Ubuntu_14'', Dir [])])])"
    by code_simp
  have b: "is_dir (fs collision_world) (path_join (local_plugin_dir example_strategy) ''build'')"
    by code_simp
  have c: "\<not> is_dir (fs cloned_world) (path_join (local_plugin_dir example_strategy) ''build'')"
    by code_simp
  have d: "output_directory example_host example_strategy = ''/out/Ubuntu_14''"
    by code_simp
  have e: "path_join (local_plugin_dir example_strategy) ''build'' =
             ''/home/irods/irods_resource_plugin_s3/build''"
    by code_simp
  from copy_build_output_failures [THEN conjunct1, rule_format, OF a]
  have "copy_build_output example_host example_strategy collision_world =
          (Inl (OSError ''/out/Ubuntu_14''), collision_world)"
    by (simp only: b d if_True)
  moreover
  from copy_build_output_failures [THEN conjunct2, THEN conjunct1, rule_format, OF c]
  have "copy_build_output example_host example_strategy cloned_world =
          (Inl (OSError ''/home/irods/irods_resource_plugin_s3/build''), cloned_world)"
    by (simp only: e)
  moreover
  from copy_build_output_failures [THEN conjunct2, THEN conjunct2, rule_format, OF f]
  have "copy_build_output example_host example_strategy empty_build_world =
       (Inr (),
        empty_build_world
          \<lparr>fs := Dir [(''home'', Dir [(''irods'', Dir [(''irods_resource_plugin_s3'',
                          Dir [(''build'', Dir [])])])]),
                       (''out'', Dir [(''Ubuntu_14'', Dir [])])]\<rparr>)"
    by (simp only: g sum.case)
  ultimately show ?thesis using a by blast
qed

text \<open>
  A clone whose \<open>build\<close> directory is empty: the step does not fail, it creates the empty
  output directory \<open>/out/Ubuntu_14\<close>.
\<close>

theorem copy_build_output_empty_source_counterexample:
  "empty_dir (fs empty_build_world) (path_join (local_plugin_dir example_strategy) ''build'')
   \<and> fst (copy_build_output example_host example_strategy empty_build_world) = Inr ()
   \<and> fs (snd (copy_build_output example_host example_strategy empty_build_world)) =
       Dir [(''home'', Dir [(''irods'', Dir [(''irods_resource_plugin_s3'',
               Dir [(''build'', Dir [])])])]),
            (''out'', Dir [(''Ubuntu_14'', Dir [])])]"
  by code_simp

subsection \<open>The four steps\<close>

text \<open>
  C5. For every concrete strategy, \<open>build\<close> executes exactly the four sub-steps in order:
  install the dependencies, fetch the source, invoke the build script, collect the output.
  Each runs once, in the world the one before left; if a sub-step fails, \<open>build\<close> ends with
  that failure in the world that sub-step left, no later sub-step runs and nothing is
  retried: the processes \<open>build\<close> starts are those of the sub-steps that ran, in order.
\<close>

theorem build_runs_four_steps_in_order:
  "GenericStrategy_build m h s w =
     (case install_building_dependencies m h s w of
        (Inl e, w1) \<Rightarrow> (Inl e, w1)
      | (Inr _, w1) \<Rightarrow>
          (case prepare_git_repository m s w1 of
             (Inl e, w2) \<Rightarrow> (Inl e, w2)
           | (Inr _, w2) \<Rightarrow>
               (case build_plugin_package m h s w2 of
                  (Inl e, w3) \<Rightarrow> (Inl e, w3)
                | (Inr _, w3) \<Rightarrow> copy_build_output h s w3)))
   \<and> calls_of (GenericStrategy_build m h s) w =
     calls_of (install_building_dependencies m h s) w @
     (case install_building_dependencies m h s w of
        (Inl e, w1) \<Rightarrow> []
      | (Inr _, w1) \<Rightarrow>
          calls_of (prepare_git_repository m s) w1 @
          (case prepare_git_repository m s w1 of
             (Inl e, w2) \<Rightarrow> []
           | (Inr _, w2) \<Rightarrow>
               calls_of (build_plugin_package m h s) w2 @
               (case build_plugin_package m h s w2 of
                  (Inl e, w3) \<Rightarrow> []
                | (Inr _, w3) \<Rightarrow> calls_of (copy_build_output h s) w3)))"
proof
  show "GenericStrategy_build m h s w =
     (case install_building_dependencies m h s w of
        (Inl e, w1) \<Rightarrow> (Inl e, w1)
      | (Inr _, w1) \<Rightarrow>
          (case prepare_git_repository m s w1 of
             (Inl e, w2) \<Rightarrow> (Inl e, w2)
           | (Inr _, w2) \<Rightarrow>
               (case build_plugin_package m h s w2 of
                  (Inl e, w3) \<Rightarrow> (Inl e, w3)
                | (Inr _, w3) \<Rightarrow> copy_build_output h s w3)))"
    by (simp add: GenericStrategy_build_def then_do_apply split: prod.split sum.split)
next
  have c3: "appends (then_do (build_plugin_package m h s) (copy_build_output h s))"
    by (intro appends_then_do appends_build_plugin_package appends_copy_build_output)
  have c2: "appends (then_do (prepare_git_repository m s)
              (then_do (build_plugin_package m h s) (copy_build_output h s)))"
    by (intro appends_then_do appends_prepare_git_repository c3)
  show "calls_of (GenericStrategy_build m h s) w =
     calls_of (install_building_dependencies m h s) w @
     (case install_building_dependencies m h s w of
        (Inl e, w1) \<Rightarrow> []
      | (Inr _, w1) \<Rightarrow>
          calls_of (prepare_git_repository m s) w1 @
          (case prepare_git_repository m s w1 of
             (Inl e, w2) \<Rightarrow> []
           | (Inr _, w2) \<Rightarrow>
               calls_of (build_plugin_package m h s) w2 @
               (case build_plugin_package m h s w2 of
                  (Inl e, w3) \<Rightarrow> []
                | (Inr _, w3) \<Rightarrow> calls_of (copy_build_output h s) w3)))"
    unfolding GenericStrategy_build_def
    by (simp add: calls_of_then_do appends_install_building_dependencies
          appends_prepare_git_repository appends_build_plugin_package appends_copy_build_output
          c2 c3 split: prod.split sum.split)
qed

text \<open>
  Two runs of the Debian-family strategy. On the quiet machine all four steps run, and the
  output directory appears. With a clone already in place and a git that refuses it, the
  run ends in the second step: the clone is the last process started.
\<close>

theorem build_runs_four_steps_in_order_witness:
  "calls_of (GenericStrategy_build quiet_machine example_host example_strategy) example_world =
     [RunCommand (Argv [''wget'', globus_repo_url]) None False,
      InstallOsPackagesFromFiles [globus_repo_package],
      InstallOsPackages (building_dependencies DebianStrategy),
      InstallOsPackagesFromFiles [''/pkgs/Ubuntu_14/irods-dev-4.1.8.deb''],
      InstallOsPackagesFromFiles [''/pkgs/Ubuntu_14/irods-runtime-4.1.8.deb''],
      git_clone example_strategy,
      git_checkout example_strategy,
      RunCommand
        (Shell ''sudo ./packaging/build.sh -r > \"/projects/irods/terrell/build-Ubuntu_14.log\" 2>&1'')
        (Some ''/home/irods/irods_resource_plugin_s3'') True]
   \<and> fst (GenericStrategy_build quiet_machine example_host example_strategy example_world) = Inr ()
   \<and> is_dir (fs (snd (GenericStrategy_build quiet_machine example_host example_strategy
                        example_world))) ''/out/Ubuntu_14''
   \<and> calls_of (GenericStrategy_build git_machine example_host example_strategy) cloned_world =
     [RunCommand (Argv [''wget'', globus_repo_url]) None False,
      InstallOsPackagesFromFiles [globus_repo_package],
      InstallOsPackages (building_dependencies DebianStrategy),
      InstallOsPackagesFromFiles [''/pkgs/Ubuntu_14/irods-dev-4.1.8.deb''],
      InstallOsPackagesFromFiles [''/pkgs/Ubuntu_14/irods-runtime-4.1.8.deb''],
      git_clone example_strategy]"
proof (intro conjI)
  show "calls_of (GenericStrategy_build quiet_machine example_host example_strategy) example_world =
     [RunCommand (Argv [''wget'', globus_repo_url]) None False,
      InstallOsPackagesFromFiles [globus_repo_package],
      InstallOsPackages (building_dependencies DebianStrategy),
      InstallOsPackagesFromFiles [''/pkgs/Ubuntu_14/irods-dev-4.1.8.deb''],
      InstallOsPackagesFromFiles [''/pkgs/Ubuntu_14/irods-runtime-4.1.8.deb''],
      git_clone example_strategy,
      git_checkout example_strategy,
      RunCommand
        (Shell ''sudo ./packaging/build.sh -r > \"/projects/irods/terrell/build-Ubuntu_14.log\" 2>&1'')
        (Some ''/home/irods/irods_resource_plugin_s3'') True]"
    by (subst build_runs_four_steps_in_order [THEN conjunct2]) code_simp
  show "fst (GenericStrategy_build quiet_machine example_host example_strategy example_world) = Inr ()"
    by (subst build_runs_four_steps_in_order [THEN conjunct1]) code_simp
  show "is_dir (fs (snd (GenericStrategy_build quiet_machine example_host example_strategy
                        example_world))) ''/out/Ubuntu_14''"
    by (subst build_runs_four_steps_in_order [THEN conjunct1]) code_simp
  show "calls_of (GenericStrategy_build git_machine example_host example_strategy) cloned_world =
     [RunCommand (Argv [''wget'', globus_repo_url]) None False,
      InstallOsPackagesFromFiles [globus_repo_package],
      InstallOsPackages (building_dependencies DebianStrategy),
      InstallOsPackagesFromFiles [''/pkgs/Ubuntu_14/irods-dev-4.1.8.deb''],
      InstallOsPackagesFromFiles [''/pkgs/Ubuntu_14/irods-runtime-4.1.8.deb''],
      git_clone example_strategy]"
    by (subst build_runs_four_steps_in_order [THEN conjunct2]) code_simp
qed

subsection \<open>The entry point\<close>

text \<open>
  C7. For every run in which the builder is constructed and the build of its strategy
  succeeds, \<open>main\<close> returns the structured result with \<open>changed\<close> true and the module's
  input parameters echoed whole, in the world the build left.
\<close>

theorem main_success_result:
  assumes "Builder_new_init h p = Inr b"
    and "Builder_build m h b w = (Inr (), w')"
  shows "main m h p w = (Inr \<lparr>changed = True, complex_args = p\<rparr>, w')"
  using assms
  by (simp add: main_def and_then_def then_do_def lift_def)

text \<open>The run of the specification's Ubuntu scenario on the quiet machine.\<close>

theorem main_success_result_witness:
  "Builder_new_init example_host example_params =
     Inr \<lparr>builder_class = UbuntuBuilder, strategy = Generic example_strategy\<rparr>
   \<and> fst (Builder_build quiet_machine example_host
            \<lparr>builder_class = UbuntuBuilder, strategy = Generic example_strategy\<rparr> example_world) =
       Inr ()
   \<and> main quiet_machine example_host example_params example_world =
       (Inr \<lparr>changed = True, complex_args = example_params\<rparr>,
        snd (Builder_build quiet_machine example_host
               \<lparr>builder_class = UbuntuBuilder, strategy = Generic example_strategy\<rparr>
               example_world))"
proof -
  have a: "Builder_new_init example_host example_params =
             Inr \<lparr>builder_class = UbuntuBuilder, strategy = Generic example_strategy\<rparr>"
    by code_simp
  have b: "fst (Builder_build quiet_machine example_host
                  \<lparr>builder_class = UbuntuBuilder, strategy = Generic example_strategy\<rparr>
                  example_world) = Inr ()"
    by code_simp
  then have c: "Builder_build quiet_machine example_host
                  \<lparr>builder_class = UbuntuBuilder, strategy = Generic example_strategy\<rparr>
                  example_world =
                (Inr (), snd (Builder_build quiet_machine example_host
                  \<lparr>builder_class = UbuntuBuilder, strategy = Generic example_strategy\<rparr>
                  example_world))"
    by (simp add: prod_eq_iff)
  from a b main_success_result [OF a c] show ?thesis by blast
qed

end
